theory Spec2Isabelle
  imports Complex_Main
begin

section \<open>The tide clock firmware\<close>

text \<open>
  A shallow embedding of the tide clock sketch \<^verbatim>\<open>newFinalThree.ino\<close>, the one variant of the
  firmware that keeps all four schedule anchors (next high, next low, last high, last low).
  One wake cycle is the body of \<^verbatim>\<open>setup()\<close>: load the persisted values, connect, read the
  time, decide whether to download, download and extract, move the servo, sleep.

  What lies outside the sketch is an input of the model: the outcome of the WiFi portal,
  of the NTP update, the readings of the clock, the day of the month the C library derives
  from the clock, the HTTP reply, and for each prediction the result of
  \<^verbatim>\<open>strptime\<close>/\<^verbatim>\<open>mktime\<close> on its time string.
\<close>

subsection \<open>Integers\<close>

text \<open>
  \<^verbatim>\<open>time_t\<close> values are integers; a Unix time of this century is represented exactly by
  every integer type the sketch moves it through. A \<^verbatim>\<open>long\<close> of the ESP32 has 32 bits:
  \<open>to_long\<close> is the value a \<^verbatim>\<open>long\<close> holds after a computation whose exact result is \<open>x\<close>.
  Division of C truncates towards zero.
\<close>

type_synonym time_t = int

definition to_long :: "int \<Rightarrow> int" where
  "to_long x = (x + 2147483648) mod 4294967296 - 2147483648"

definition c_div :: "int \<Rightarrow> int \<Rightarrow> int" where
  "c_div a b = (if (a < 0) = (b < 0) then \<bar>a\<bar> div \<bar>b\<bar> else - (\<bar>a\<bar> div \<bar>b\<bar>))"

text \<open>The macro \<^verbatim>\<open>constrain(amt, low, high)\<close> of the Arduino core.\<close>

definition constrain :: "int \<Rightarrow> int \<Rightarrow> int \<Rightarrow> int" where
  "constrain amt low high = (if amt < low then low else if amt > high then high else amt)"

text \<open>
  The function \<^verbatim>\<open>map\<close> of the Arduino core for the ESP32 (a library, not a file of the
  sketch), on \<^verbatim>\<open>long\<close>: with \<^verbatim>\<open>run = in_max - in_min\<close>, \<^verbatim>\<open>rise = out_max - out_min\<close> and
  \<^verbatim>\<open>delta = x - in_min\<close> it returns \<^verbatim>\<open>-1\<close> when \<^verbatim>\<open>run\<close> is 0 and
  \<^verbatim>\<open>(delta * rise) / run + out_min\<close> otherwise.
\<close>

definition map_long :: "int \<Rightarrow> int \<Rightarrow> int \<Rightarrow> int \<Rightarrow> int \<Rightarrow> int" where
  "map_long x in_min in_max out_min out_max =
     (let run = to_long (in_max - in_min);
          rise = to_long (out_max - out_min);
          delta = to_long (x - in_min)
      in if run = 0 then - 1
         else to_long (c_div (to_long (delta * rise)) run + out_min))"

subsection \<open>Constants of the sketch\<close>

definition TIME_TO_SLEEP :: nat where
  "TIME_TO_SLEEP = 1800"

definition SERVO_HIGH_TIDE_ANGLE_1 :: int where
  "SERVO_HIGH_TIDE_ANGLE_1 = 0"

definition SERVO_LOW_TIDE_ANGLE :: int where
  "SERVO_LOW_TIDE_ANGLE = 90"

definition SERVO_HIGH_TIDE_ANGLE_2 :: int where
  "SERVO_HIGH_TIDE_ANGLE_2 = 180"

definition HTTP_CODE_OK :: int where
  "HTTP_CODE_OK = 200"

subsection \<open>State: the global variables and the preferences store\<close>

text \<open>
  The global variables of the sketch. A time of \<open>0\<close> is the sketch's mark for an anchor
  that is absent.
\<close>

record tide_vars =
  noaa_station_id :: string
  lastDownloadDay :: int
  nextHighTideTime :: time_t
  nextHighTideHeight :: real
  nextLowTideTime :: time_t
  nextLowTideHeight :: real
  lastHighTideTime :: time_t
  lastLowTideTime :: time_t

text \<open>
  The namespace \<^verbatim>\<open>tideClock\<close> of the preferences store, one field per key, a key that was
  never written holding the default the sketch reads it with.
\<close>

record nvs_store =
  noaa_id :: string
  last_dl_day :: int
  next_ht_time :: time_t
  next_ht_height :: real
  next_lt_time :: time_t
  next_lt_height :: real
  last_ht_time :: time_t
  last_lt_time :: time_t

record system =
  ram :: tide_vars
  nvs :: nvs_store

text \<open>
  \<^verbatim>\<open>loadConfiguration\<close>. The station is read into \<^verbatim>\<open>char noaa_station_id[10]\<close>: a stored
  string that does not fit with its terminator is not copied and the global stays empty.
\<close>

definition loadConfiguration :: "nvs_store \<Rightarrow> tide_vars" where
  "loadConfiguration p =
     \<lparr>noaa_station_id = (if length (noaa_id p) < 10 then noaa_id p else []),
      lastDownloadDay = last_dl_day p,
      nextHighTideTime = next_ht_time p,
      nextHighTideHeight = next_ht_height p,
      nextLowTideTime = next_lt_time p,
      nextLowTideHeight = next_lt_height p,
      lastHighTideTime = last_ht_time p,
      lastLowTideTime = last_lt_time p\<rparr>"

definition saveNoaaStationId :: "string \<Rightarrow> nvs_store \<Rightarrow> nvs_store" where
  "saveNoaaStationId ident p = p\<lparr>noaa_id := ident\<rparr>"

definition saveLastDownloadDay :: "int \<Rightarrow> nvs_store \<Rightarrow> nvs_store" where
  "saveLastDownloadDay day p = p\<lparr>last_dl_day := day\<rparr>"

subsection \<open>The feed\<close>

text \<open>
  One element of the array \<^verbatim>\<open>predictions\<close>: the field \<^verbatim>\<open>type\<close>, the time that
  \<^verbatim>\<open>strptime\<close> and \<^verbatim>\<open>mktime\<close> make of the field \<^verbatim>\<open>t\<close> (\<open>None\<close> when \<^verbatim>\<open>strptime\<close> fails) and
  the field \<^verbatim>\<open>v\<close>. A null element of the array is \<open>None\<close>.
\<close>

record prediction =
  ptype :: string
  ptime :: "time_t option"
  pheight :: real

datatype json_payload = BadJson | Json "prediction option list option"

record http_reply =
  httpCode :: int
  body :: json_payload

subsection \<open>Extraction of the four anchors\<close>

text \<open>The body of the loop over the predictions.\<close>

definition scan_one :: "time_t \<Rightarrow> tide_vars \<Rightarrow> prediction option \<Rightarrow> tide_vars" where
  "scan_one currentTime g e =
     (case e of
        None \<Rightarrow> g
      | Some p \<Rightarrow>
          (case ptime p of
             None \<Rightarrow> g
           | Some tideUnixTime \<Rightarrow>
               if tideUnixTime < currentTime then
                 (if ptype p = ''H'' then
                    (if tideUnixTime > lastHighTideTime g
                     then g\<lparr>lastHighTideTime := tideUnixTime\<rparr> else g)
                  else if ptype p = ''L'' then
                    (if tideUnixTime > lastLowTideTime g
                     then g\<lparr>lastLowTideTime := tideUnixTime\<rparr> else g)
                  else g)
               else
                 (if ptype p = ''H'' \<and> nextHighTideTime g = 0 then
                    g\<lparr>nextHighTideTime := tideUnixTime, nextHighTideHeight := pheight p\<rparr>
                  else if ptype p = ''L'' \<and> nextLowTideTime g = 0 then
                    g\<lparr>nextLowTideTime := tideUnixTime, nextLowTideHeight := pheight p\<rparr>
                  else g)))"

primrec scan_predictions :: "time_t \<Rightarrow> tide_vars \<Rightarrow> prediction option list \<Rightarrow> tide_vars" where
  "scan_predictions currentTime g [] = g"
| "scan_predictions currentTime g (e # es) =
     scan_predictions currentTime (scan_one currentTime g e) es"

definition reset_anchors :: "tide_vars \<Rightarrow> tide_vars" where
  "reset_anchors g =
     g\<lparr>nextHighTideTime := 0, nextHighTideHeight := 0,
       nextLowTideTime := 0, nextLowTideHeight := 0,
       lastHighTideTime := 0, lastLowTideTime := 0\<rparr>"

definition extract_anchors :: "time_t \<Rightarrow> tide_vars \<Rightarrow> prediction option list \<Rightarrow> tide_vars" where
  "extract_anchors currentTime g ps = scan_predictions currentTime (reset_anchors g) ps"

definition save_anchors :: "tide_vars \<Rightarrow> nvs_store \<Rightarrow> nvs_store" where
  "save_anchors g p =
     p\<lparr>next_ht_time := nextHighTideTime g,
       next_ht_height := nextHighTideHeight g,
       next_lt_time := nextLowTideTime g,
       next_lt_height := nextLowTideHeight g,
       last_ht_time := lastHighTideTime g,
       last_lt_time := lastLowTideTime g\<rparr>"

text \<open>
  \<^verbatim>\<open>getNOAATideData\<close>: the value it returns and the state it leaves. \<open>currentTime\<close> is the
  clock as the function reads it on entry.
\<close>

definition getNOAATideData :: "time_t \<Rightarrow> http_reply \<Rightarrow> system \<Rightarrow> bool \<times> system" where
  "getNOAATideData currentTime reply s =
     (if noaa_station_id (ram s) = [] then (False, s)
      else if httpCode reply = HTTP_CODE_OK then
        (case body reply of
           BadJson \<Rightarrow> (False, s)
         | Json None \<Rightarrow> (False, s)
         | Json (Some predictions) \<Rightarrow>
             if predictions = [] then (False, s)
             else
               let g = extract_anchors currentTime (ram s) predictions
               in (nextHighTideTime g > 0 \<or> nextLowTideTime g > 0,
                   \<lparr>ram = g, nvs = save_anchors g (nvs s)\<rparr>))
      else (False, s))"

subsection \<open>The servo\<close>

text \<open>
  What \<^verbatim>\<open>updateServoPosition\<close> does to the servo: it returns without a write, or it writes
  an angle.
\<close>

datatype servo_action = Untouched | Written int

definition prevTide :: "tide_vars \<Rightarrow> time_t \<times> string" where
  "prevTide g =
     (if lastHighTideTime g > lastLowTideTime g then (lastHighTideTime g, ''H'')
      else if lastLowTideTime g > 0 then (lastLowTideTime g, ''L'')
      else (0, ''N/A''))"

definition nextTide :: "tide_vars \<Rightarrow> time_t \<times> string" where
  "nextTide g =
     (if nextHighTideTime g > 0 \<and> (nextLowTideTime g = 0 \<or> nextHighTideTime g < nextLowTideTime g)
      then (nextHighTideTime g, ''H'')
      else if nextLowTideTime g > 0 then (nextLowTideTime g, ''L'')
      else (0, ''N/A''))"

definition updateServoPosition :: "time_t \<Rightarrow> tide_vars \<Rightarrow> servo_action" where
  "updateServoPosition currentTime g =
     (let (prevTideTime, prevTideType) = prevTide g;
          (nextTideTime, nextTideType) = nextTide g
      in if prevTideTime = 0 \<or> nextTideTime = 0 then Untouched
         else
           let totalCycleSeconds = to_long (nextTideTime - prevTideTime);
               secondsIntoCycle = to_long (currentTime - prevTideTime);
               newAngle =
                 (if prevTideType = ''H'' \<and> nextTideType = ''L'' then
                    constrain
                      (map_long secondsIntoCycle 0 totalCycleSeconds
                         SERVO_HIGH_TIDE_ANGLE_1 SERVO_LOW_TIDE_ANGLE)
                      SERVO_HIGH_TIDE_ANGLE_1 SERVO_LOW_TIDE_ANGLE
                  else if prevTideType = ''L'' \<and> nextTideType = ''H'' then
                    constrain
                      (map_long secondsIntoCycle 0 totalCycleSeconds
                         SERVO_LOW_TIDE_ANGLE SERVO_HIGH_TIDE_ANGLE_2)
                      SERVO_LOW_TIDE_ANGLE SERVO_HIGH_TIDE_ANGLE_2
                  else SERVO_LOW_TIDE_ANGLE)
           in Written (constrain newAngle 0 180))"

subsection \<open>Sleep\<close>

text \<open>
  \<^verbatim>\<open>deepSleep\<close>: the number of seconds of the timer wake-up it arms before the device
  sleeps. With a clock reading of 0 the device sleeps inside the first branch.
\<close>

definition deepSleep :: "time_t \<Rightarrow> nat" where
  "deepSleep currentTime = (if currentTime = 0 then 600 else TIME_TO_SLEEP)"

subsection \<open>The wake cycle\<close>

datatype wifi_outcome = WifiFailed | WifiConnected string

text \<open>
  \<^verbatim>\<open>connectToWiFi\<close>: the string of a connected portal is the value of its station
  parameter, which the sketch copies into the global and saves as it is.
\<close>

definition connectToWiFi :: "wifi_outcome \<Rightarrow> system \<Rightarrow> bool \<times> system" where
  "connectToWiFi w s =
     (case w of
        WifiFailed \<Rightarrow> (False, s)
      | WifiConnected v \<Rightarrow>
          if noaa_station_id (ram s) \<noteq> v \<and> length v > 0
          then (True, \<lparr>ram = (ram s)\<lparr>noaa_station_id := v\<rparr>, nvs = saveNoaaStationId v (nvs s)\<rparr>)
          else (True, s))"

text \<open>The test of \<^verbatim>\<open>setup\<close> that sets \<^verbatim>\<open>needsNewData\<close>.\<close>

definition nextFutureTideTime :: "tide_vars \<Rightarrow> time_t" where
  "nextFutureTideTime g =
     (if nextHighTideTime g > 0 \<and> (nextLowTideTime g = 0 \<or> nextHighTideTime g < nextLowTideTime g)
      then nextHighTideTime g
      else if nextLowTideTime g > 0 then nextLowTideTime g
      else 0)"

definition needsNewData :: "int \<Rightarrow> time_t \<Rightarrow> tide_vars \<Rightarrow> bool" where
  "needsNewData currentDay currentTime g =
     (let n1 = (currentDay \<noteq> lastDownloadDay g);
          n2 = (if length (noaa_station_id g) = 0 then True else n1);
          n3 = (if nextFutureTideTime g > 0 \<and> nextFutureTideTime g < currentTime then True
                else if nextFutureTideTime g = 0 then True
                else n2)
      in n3)"

text \<open>The branch of \<^verbatim>\<open>setup\<close> taken when \<^verbatim>\<open>needsNewData\<close> is set.\<close>

definition refresh :: "int \<Rightarrow> time_t \<Rightarrow> http_reply \<Rightarrow> system \<Rightarrow> system" where
  "refresh currentDay fetchTime reply s =
     (case getNOAATideData fetchTime reply s of
        (True, s') \<Rightarrow>
          \<lparr>ram = (ram s')\<lparr>lastDownloadDay := currentDay\<rparr>,
           nvs = saveLastDownloadDay currentDay (nvs s')\<rparr>
      | (False, s') \<Rightarrow> s')"

text \<open>
  The inputs of one wake cycle: the outcome of the portal, of \<^verbatim>\<open>forceUpdate\<close>, and the
  clock at each place the sketch reads it.
\<close>

record wake_inputs =
  wifi :: wifi_outcome
  ntp_forceUpdate :: bool
  epoch_setup :: time_t
  tm_mday :: int
  epoch_fetch :: time_t
  http :: http_reply
  epoch_servo :: time_t
  epoch_sleep :: time_t

record wake_result =
  store_after :: nvs_store
  refresh_attempted :: bool
  servo :: servo_action
  sleep_seconds :: nat

text \<open>The body of \<^verbatim>\<open>setup()\<close> from \<^verbatim>\<open>loadConfiguration()\<close> on.\<close>

definition setup_body :: "wake_inputs \<Rightarrow> nvs_store \<Rightarrow> wake_result" where
  "setup_body inp p =
     (let s0 = \<lparr>ram = loadConfiguration p, nvs = p\<rparr>;
          (wifiConnected, s1) = connectToWiFi (wifi inp) s0;
          ntpSuccess = (if wifiConnected then ntp_forceUpdate inp else False);
          attempt = (ntpSuccess \<and> needsNewData (tm_mday inp) (epoch_setup inp) (ram s1));
          s2 = (if attempt then refresh (tm_mday inp) (epoch_fetch inp) (http inp) s1 else s1)
      in \<lparr>store_after = nvs s2,
          refresh_attempted = attempt,
          servo = updateServoPosition (epoch_servo inp) (ram s2),
          sleep_seconds = deepSleep (epoch_sleep inp)\<rparr>)"

section \<open>Notions of the specification\<close>

text \<open>
  The times of the records of kind \<open>k\<close> at or after \<open>t\<close>, in the order of the input.
\<close>

definition future_times :: "string \<Rightarrow> time_t \<Rightarrow> prediction option list \<Rightarrow> time_t list" where
  "future_times k t ps =
     List.map_filter
       (\<lambda>e. case e of
               None \<Rightarrow> None
             | Some p \<Rightarrow>
                 (case ptime p of
                    None \<Rightarrow> None
                  | Some ts \<Rightarrow> if ptype p = k \<and> t \<le> ts then Some ts else None)) ps"


text \<open>
  A refresh that fails before the anchors are touched: no station, a transport error,
  a payload that does not decode, or no prediction in it.
\<close>

definition fetch_or_decode_failed :: "http_reply \<Rightarrow> system \<Rightarrow> bool" where
  "fetch_or_decode_failed reply s =
     (noaa_station_id (ram s) = [] \<or> httpCode reply \<noteq> HTTP_CODE_OK \<or>
      body reply = BadJson \<or> body reply = Json None \<or> body reply = Json (Some []))"

text \<open>The earliest of the next anchors that are present, if one is.\<close>

definition earliest_next :: "tide_vars \<Rightarrow> time_t option" where
  "earliest_next g =
     (if 0 < nextHighTideTime g \<and> 0 < nextLowTideTime g
      then Some (min (nextHighTideTime g) (nextLowTideTime g))
      else if 0 < nextHighTideTime g then Some (nextHighTideTime g)
      else if 0 < nextLowTideTime g then Some (nextLowTideTime g)
      else None)"

text \<open>The state of a wake cycle after \<^verbatim>\<open>loadConfiguration\<close> and \<^verbatim>\<open>connectToWiFi\<close>.\<close>

definition connected_state :: "wake_inputs \<Rightarrow> nvs_store \<Rightarrow> system" where
  "connected_state inp p = snd (connectToWiFi (wifi inp) \<lparr>ram = loadConfiguration p, nvs = p\<rparr>)"

definition time_acquired :: "wake_inputs \<Rightarrow> nvs_store \<Rightarrow> bool" where
  "time_acquired inp p =
     (fst (connectToWiFi (wifi inp) \<lparr>ram = loadConfiguration p, nvs = p\<rparr>) \<and> ntp_forceUpdate inp)"

section \<open>Sample values\<close>

text \<open>
  A day of the feed: high water at 08:10, low water at 14:45, high water at 20:30, as
  seconds after the time 1750000000, taken as the midnight of the 15th.
\<close>

definition day0 :: time_t where
  "day0 = 1750000000"

definition feed :: "prediction option list" where
  "feed =
     [Some \<lparr>ptype = ''H'', ptime = Some (day0 + 29400), pheight = 11.2\<rparr>,
      Some \<lparr>ptype = ''L'', ptime = Some (day0 + 53100), pheight = 1.8\<rparr>,
      Some \<lparr>ptype = ''H'', ptime = Some (day0 + 73800), pheight = 10.9\<rparr>]"

definition unordered_feed :: "prediction option list" where
  "unordered_feed =
     [Some \<lparr>ptype = ''H'', ptime = Some (day0 + 73800), pheight = 10.9\<rparr>,
      Some \<lparr>ptype = ''L'', ptime = Some (day0 + 53100), pheight = 1.8\<rparr>,
      Some \<lparr>ptype = ''H'', ptime = Some (day0 + 29400), pheight = 11.2\<rparr>]"

text \<open>Two low waters out of order, a high water and a null element.\<close>

definition two_lows :: "prediction option list" where
  "two_lows = [Some \<lparr>ptype = ''L'', ptime = Some (day0 + 53100), pheight = 1.8\<rparr>,
     Some \<lparr>ptype = ''H'', ptime = Some (day0 + 29400), pheight = 11.2\<rparr>,
     None,
     Some \<lparr>ptype = ''L'', ptime = Some (day0 + 8000), pheight = 2.1\<rparr>]"

definition empty_vars :: tide_vars where
  "empty_vars =
     \<lparr>noaa_station_id = ''9455920'', lastDownloadDay = 0,
      nextHighTideTime = 0, nextHighTideHeight = 0,
      nextLowTideTime = 0, nextLowTideHeight = 0,
      lastHighTideTime = 0, lastLowTideTime = 0\<rparr>"

definition falling_vars :: tide_vars where
  "falling_vars =
     empty_vars\<lparr>lastDownloadDay := 15, lastHighTideTime := day0 + 29400,
       nextLowTideTime := day0 + 53100, nextLowTideHeight := 1.8,
       nextHighTideTime := day0 + 73800, nextHighTideHeight := 10.9\<rparr>"

definition rising_vars :: tide_vars where
  "rising_vars =
     empty_vars\<lparr>lastDownloadDay := 15, lastHighTideTime := day0 + 29400,
       lastLowTideTime := day0 + 53100,
       nextHighTideTime := day0 + 73800, nextHighTideHeight := 10.9\<rparr>"

definition same_kind_vars :: tide_vars where
  "same_kind_vars =
     empty_vars\<lparr>lastDownloadDay := 15, lastHighTideTime := day0 + 29400,
       nextHighTideTime := day0 + 73800, nextHighTideHeight := 10.9\<rparr>"

definition reversed_vars :: tide_vars where
  "reversed_vars =
     empty_vars\<lparr>lastDownloadDay := 15, lastHighTideTime := day0 + 53100,
       nextLowTideTime := day0 + 29400\<rparr>"

definition falling_store :: nvs_store where
  "falling_store =
     \<lparr>noaa_id = ''9455920'', last_dl_day = 15,
      next_ht_time = day0 + 73800, next_ht_height = 10.9,
      next_lt_time = day0 + 53100, next_lt_height = 1.8,
      last_ht_time = day0 + 29400, last_lt_time = 0\<rparr>"

definition ok_reply :: http_reply where
  "ok_reply = \<lparr>httpCode = 200, body = Json (Some feed)\<rparr>"

definition error_reply :: http_reply where
  "error_reply = \<lparr>httpCode = 503, body = BadJson\<rparr>"

text \<open>A wake on the next day, after every record of the feed, the download answering.\<close>

definition late_inputs :: wake_inputs where
  "late_inputs =
     \<lparr>wifi = WifiConnected [], ntp_forceUpdate = True,
      epoch_setup = day0 + 90000, tm_mday = 16, epoch_fetch = day0 + 90002,
      http = ok_reply, epoch_servo = day0 + 90005, epoch_sleep = day0 + 90026\<rparr>"

text \<open>A wake at 11:00 on which the time server does not answer.\<close>

definition no_time_inputs :: wake_inputs where
  "no_time_inputs =
     \<lparr>wifi = WifiConnected [], ntp_forceUpdate = False,
      epoch_setup = day0 + 39600, tm_mday = 15, epoch_fetch = day0 + 39600,
      http = error_reply, epoch_servo = day0 + 39600, epoch_sleep = day0 + 39620\<rparr>"

text \<open>A wake at 11:00 of the day of the last download, the time server answering.\<close>

definition calm_inputs :: wake_inputs where
  "calm_inputs =
     \<lparr>wifi = WifiConnected [], ntp_forceUpdate = True,
      epoch_setup = day0 + 39600, tm_mday = 15, epoch_fetch = day0 + 39602,
      http = ok_reply, epoch_servo = day0 + 39605, epoch_sleep = day0 + 39626\<rparr>"

text \<open>A wake on the next day on which the download fails.\<close>

definition failing_inputs :: wake_inputs where
  "failing_inputs = late_inputs\<lparr>http := error_reply\<rparr>"

definition falling_system :: system where
  "falling_system = \<lparr>ram = loadConfiguration falling_store, nvs = falling_store\<rparr>"

text \<open>
  A last high water and a next low water 23860930 seconds apart: 90 times the length is
  the first product that a \<^verbatim>\<open>long\<close> does not hold.
\<close>

definition long_bracket_vars :: tide_vars where
  "long_bracket_vars =
     empty_vars\<lparr>lastDownloadDay := 15, lastHighTideTime := day0,
       nextLowTideTime := day0 + 23860930\<rparr>"

text \<open>A feed with a high water in 1970 and a low water in 2065, and a system that holds nothing.\<close>

definition far_feed :: "prediction option list" where
  "far_feed =
     [Some \<lparr>ptype = ''H'', ptime = Some 1000, pheight = 11.2\<rparr>,
      Some \<lparr>ptype = ''L'', ptime = Some 3000000000, pheight = 1.8\<rparr>]"

definition blank_system :: system where
  "blank_system =
     \<lparr>ram = empty_vars,
      nvs = \<lparr>noaa_id = ''9455920'', last_dl_day = 0,
             next_ht_time = 0, next_ht_height = 0, next_lt_time = 0, next_lt_height = 0,
             last_ht_time = 0, last_lt_time = 0\<rparr>\<rparr>"

definition far_reply :: http_reply where
  "far_reply = \<lparr>httpCode = 200, body = Json (Some far_feed)\<rparr>"

text \<open>
  A wake without the time server in which the portal hands over a new station, and a
  wake with no connection at all.
\<close>

definition new_station_inputs :: wake_inputs where
  "new_station_inputs = no_time_inputs\<lparr>wifi := WifiConnected ''9410230''\<rparr>"

definition offline_inputs :: wake_inputs where
  "offline_inputs = no_time_inputs\<lparr>wifi := WifiFailed\<rparr>"

section \<open>Arithmetic of the helpers\<close>

lemma to_long_id: "- 2147483648 \<le> x \<Longrightarrow> x < 2147483648 \<Longrightarrow> to_long x = x"
  by (simp add: to_long_def)

lemma to_long_range: "- 2147483648 \<le> to_long x \<and> to_long x < 2147483648"
  by (simp add: to_long_def)

lemma to_long_idem: "to_long (to_long x) = to_long x"
  using to_long_range [of x] by (simp add: to_long_id)

lemma c_div_nonneg: "0 \<le> a \<Longrightarrow> 0 < b \<Longrightarrow> c_div a b = a div b"
  by (simp add: c_div_def)

lemma constrain_bounds:
  "low \<le> high \<Longrightarrow> low \<le> constrain amt low high \<and> constrain amt low high \<le> high"
  by (simp add: constrain_def)

lemma constrain_inside: "low \<le> amt \<Longrightarrow> amt \<le> high \<Longrightarrow> constrain amt low high = amt"
  by (simp add: constrain_def)

lemmas angle_defs =
  SERVO_HIGH_TIDE_ANGLE_1_def SERVO_LOW_TIDE_ANGLE_def SERVO_HIGH_TIDE_ANGLE_2_def

lemmas sample_defs = day0_def empty_vars_def falling_vars_def rising_vars_def
  same_kind_vars_def reversed_vars_def long_bracket_vars_def

lemmas servo_eval = updateServoPosition_def prevTide_def nextTide_def map_long_def to_long_def
  c_div_def constrain_def angle_defs

lemma scaled_quotient_le:
  fixes x T :: int
  assumes "x \<le> T" "0 < T"
  shows "x * 90 div T \<le> 90"
proof -
  have "x * 90 div T \<le> (90 * T) div T"
    using assms by (intro zdiv_mono1) simp_all
  then show ?thesis using assms by simp
qed

lemma map_long_falling:
  assumes "0 \<le> x" "x \<le> T" "0 < T" "T * 90 < 2147483648"
  shows "map_long x 0 T 0 90 = x * 90 div T"
proof -
  have x90: "x * 90 \<le> T * 90" using assms by simp
  have q: "x * 90 div T \<le> 90" using assms by (simp add: scaled_quotient_le)
  have q0: "0 \<le> x * 90 div T" using assms by (simp add: pos_imp_zdiv_nonneg_iff)
  have a: "to_long T = T" "to_long x = x" "to_long (x * 90) = x * 90"
    "to_long (x * 90 div T) = x * 90 div T"
    using assms x90 q q0 by (simp_all add: to_long_id)
  show ?thesis
    using assms q0 by (simp add: map_long_def Let_def a to_long_id c_div_nonneg)
qed

section \<open>The servo with both anchors present\<close>

text \<open>
  With a last and a next anchor selected the sketch always writes: the value of the
  segment held to its half of the dial for a pair of opposite kinds, and 90 otherwise.
\<close>

lemma written_when_selected:
  assumes "prevTide g = (t0, k0)" "nextTide g = (t1, k1)" "t0 \<noteq> 0" "t1 \<noteq> 0"
  shows "\<exists>a. updateServoPosition now g = Written a \<and>
           (k0 = ''H'' \<and> k1 = ''L'' \<longrightarrow> 0 \<le> a \<and> a \<le> 90) \<and>
           (k0 = ''L'' \<and> k1 = ''H'' \<longrightarrow> 90 \<le> a \<and> a \<le> 180) \<and>
           (k0 = k1 \<longrightarrow> a = 90)"
  using assms
  by (auto simp: updateServoPosition_def Let_def constrain_def angle_defs)

lemma untouched_iff_unselected:
  "updateServoPosition now g = Untouched \<longleftrightarrow> fst (prevTide g) = 0 \<or> fst (nextTide g) = 0"
  by (auto simp: updateServoPosition_def Let_def split: prod.splits)

lemma prevTide_station: "prevTide (g\<lparr>noaa_station_id := v\<rparr>) = prevTide g"
  by (auto simp: prevTide_def)

lemma nextTide_station: "nextTide (g\<lparr>noaa_station_id := v\<rparr>) = nextTide g"
  by (auto simp: nextTide_def)

lemma updateServoPosition_station:
  "updateServoPosition now (g\<lparr>noaa_station_id := v\<rparr>) = updateServoPosition now g"
  by (simp only: updateServoPosition_def prevTide_station nextTide_station)

section \<open>The dial between two anchors\<close>

text \<open>
  Between a last high water at \<open>t0\<close> and a next low water at \<open>t1\<close> the sketch writes the
  angle \<open>(now - t0) * 90 div (t1 - t0)\<close>, as long as \<open>90 * (t1 - t0)\<close> fits the \<^verbatim>\<open>long\<close>
  that \<^verbatim>\<open>map\<close> computes in.
\<close>

lemma falling_angle:
  assumes br: "prevTide g = (t0, ''H'')" "nextTide g = (t1, ''L'')" "t0 \<noteq> 0" "t1 \<noteq> 0"
    and rng: "t0 < t1" "(t1 - t0) * 90 < 2147483648"
    and now: "t0 \<le> now" "now \<le> t1"
  shows "updateServoPosition now g = Written ((now - t0) * 90 div (t1 - t0))"
proof -
  let ?T = "t1 - t0" and ?x = "now - t0"
  have T: "to_long ?T = ?T" and x: "to_long ?x = ?x"
    using rng now by (simp_all add: to_long_id)
  have m: "map_long ?x 0 ?T 0 90 = ?x * 90 div ?T"
    using rng now by (intro map_long_falling) simp_all
  have q0: "0 \<le> ?x * 90 div ?T"
    by (rule pos_imp_zdiv_nonneg_iff [THEN iffD2]) (use rng now in simp_all)
  have q1: "?x * 90 div ?T \<le> 90"
    by (rule scaled_quotient_le) (use rng now in simp_all)
  have c: "constrain (constrain (?x * 90 div ?T) 0 90) 0 180 = ?x * 90 div ?T"
    using q0 q1 by (simp only: constrain_def) simp
  have "updateServoPosition now g =
      Written (constrain (constrain (?x * 90 div ?T) 0 90) 0 180)"
    using br by (simp add: updateServoPosition_def Let_def T x m angle_defs)
  then show ?thesis by (simp only: c)
qed

text \<open>
  Claim C1, as amended. When the bracket the sketch selects is a last high water at \<open>t0\<close>
  and a next low water at \<open>t1\<close>, both present, with \<open>t1 > t0\<close> and with
  \<open>90 * (t1 - t0)\<close> below \<open>2^31\<close> (a bracket of at most 23860929 seconds, 276 days), the
  angle written is 0 at \<open>now = t0\<close>, 90 at \<open>now = t1\<close>, and it never decreases as \<open>now\<close>
  moves from \<open>t0\<close> to \<open>t1\<close>.
\<close>

theorem falling_bracket_endpoints_and_monotone:
  assumes "prevTide g = (t0, ''H'')" and "nextTide g = (t1, ''L'')"
    and "t0 \<noteq> 0" and "t1 \<noteq> 0" and "t0 < t1" and "(t1 - t0) * 90 < 2147483648"
  shows "updateServoPosition t0 g = Written 0 \<and>
         updateServoPosition t1 g = Written 90 \<and>
         (\<forall>a b. t0 \<le> a \<and> a \<le> b \<and> b \<le> t1 \<longrightarrow>
            (\<exists>x y. updateServoPosition a g = Written x \<and>
                   updateServoPosition b g = Written y \<and> x \<le> y))"
proof (intro conjI allI impI)
  show "updateServoPosition t0 g = Written 0"
    using falling_angle [OF assms, of t0] assms(5) by simp
  have "(t1 - t0) * 90 div (t1 - t0) = 90"
    using assms(5) by (intro nonzero_mult_div_cancel_left) simp
  then show "updateServoPosition t1 g = Written 90"
    using falling_angle [OF assms, of t1] assms(5) by (simp only: order_refl less_imp_le)
next
  fix a b
  assume ab: "t0 \<le> a \<and> a \<le> b \<and> b \<le> t1"
  have fa: "updateServoPosition a g = Written ((a - t0) * 90 div (t1 - t0))"
    using ab by (intro falling_angle [OF assms]) simp_all
  have fb: "updateServoPosition b g = Written ((b - t0) * 90 div (t1 - t0))"
    using ab by (intro falling_angle [OF assms]) simp_all
  have "(a - t0) * 90 div (t1 - t0) \<le> (b - t0) * 90 div (t1 - t0)"
    using ab assms(5) by (intro zdiv_mono1) simp_all
  then show "\<exists>x y. updateServoPosition a g = Written x \<and>
                   updateServoPosition b g = Written y \<and> x \<le> y"
    using fa fb by simp
qed

text \<open>
  The sample day: high water at 08:10, low water at 14:45. The dial is at 0 at 08:10, at 38
  at 11:00, at 66 at 13:00 and at 90 at 14:45.
\<close>

theorem falling_bracket_witness:
  "prevTide falling_vars = (day0 + 29400, ''H'') \<and>
   nextTide falling_vars = (day0 + 53100, ''L'') \<and>
   updateServoPosition (day0 + 29400) falling_vars = Written 0 \<and>
   updateServoPosition (day0 + 53100) falling_vars = Written 90 \<and>
   updateServoPosition (day0 + 39600) falling_vars = Written 38 \<and>
   updateServoPosition (day0 + 46800) falling_vars = Written 66"
proof -
  have p: "prevTide falling_vars = (day0 + 29400, ''H'')"
    by (simp add: prevTide_def sample_defs)
  have n: "nextTide falling_vars = (day0 + 53100, ''L'')"
    by (simp add: nextTide_def sample_defs)
  have ends: "updateServoPosition (day0 + 29400) falling_vars = Written 0 \<and>
      updateServoPosition (day0 + 53100) falling_vars = Written 90"
    using falling_bracket_endpoints_and_monotone [OF p n] by (simp add: day0_def)
  have mid: "updateServoPosition (day0 + 39600) falling_vars = Written 38"
    "updateServoPosition (day0 + 46800) falling_vars = Written 66"
    by (simp_all add: updateServoPosition_def p n map_long_def to_long_def c_div_def
        constrain_def angle_defs day0_def)
  show ?thesis using p n ends mid by simp
qed

text \<open>
  A bracket of 23860930 seconds: the product of \<^verbatim>\<open>map\<close> at the low water is 2147483700,
  which a \<^verbatim>\<open>long\<close> holds as a negative number, and the angle written there is 0, after 89
  ten seconds earlier.
\<close>

theorem long_bracket_counterexample:
  "prevTide long_bracket_vars = (day0, ''H'') \<and>
   nextTide long_bracket_vars = (day0 + 23860930, ''L'') \<and>
   day0 < day0 + 23860930 \<and>
   updateServoPosition (day0 + 23860930) long_bracket_vars = Written 0 \<and>
   updateServoPosition (day0 + 23860920) long_bracket_vars = Written 89"
  by (simp add: servo_eval sample_defs)

text \<open>
  Claim C10. For a bracket of opposite kinds with both anchors present and \<open>t0 < t1\<close>, the
  angle written lies in 0..90 on a falling tide (high to low) and in 90..180 on a rising
  tide (low to high), whatever the clock reads: the \<^verbatim>\<open>constrain\<close> of each segment is
  applied to whatever \<^verbatim>\<open>map\<close> returns.
\<close>

theorem bracket_angle_stays_in_its_half:
  assumes "prevTide g = (t0, k0)" and "nextTide g = (t1, k1)"
    and "t0 \<noteq> 0" and "t1 \<noteq> 0" and "t0 < t1"
  shows "(k0 = ''H'' \<and> k1 = ''L'' \<longrightarrow>
            (\<exists>a. updateServoPosition now g = Written a \<and> 0 \<le> a \<and> a \<le> 90)) \<and>
         (k0 = ''L'' \<and> k1 = ''H'' \<longrightarrow>
            (\<exists>a. updateServoPosition now g = Written a \<and> 90 \<le> a \<and> a \<le> 180))"
  using written_when_selected [OF assms(1-4), of now] by blast

text \<open>
  A clock that reads 0 on the falling sample and a clock far past the bracket on the
  rising one.
\<close>

theorem bracket_angle_witness:
  "(\<exists>a. updateServoPosition 0 falling_vars = Written a \<and> 0 \<le> a \<and> a \<le> 90) \<and>
   (\<exists>a. updateServoPosition (day0 + 900000000) rising_vars = Written a \<and>
        90 \<le> a \<and> a \<le> 180)"
proof -
  have p: "prevTide falling_vars = (day0 + 29400, ''H'')"
    by (simp add: prevTide_def sample_defs)
  have n: "nextTide falling_vars = (day0 + 53100, ''L'')"
    by (simp add: nextTide_def sample_defs)
  have p': "prevTide rising_vars = (day0 + 53100, ''L'')"
    by (simp add: prevTide_def sample_defs)
  have n': "nextTide rising_vars = (day0 + 73800, ''H'')"
    by (simp add: nextTide_def sample_defs)
  show ?thesis
    using bracket_angle_stays_in_its_half [OF p n, of 0]
      bracket_angle_stays_in_its_half [OF p' n', of "day0 + 900000000"]
    by (simp add: day0_def)
qed

section \<open>Extraction: the last anchors\<close>

lemma scan_one_lastLow:
  "lastLowTideTime (scan_one t g e) =
     (case e of None \<Rightarrow> lastLowTideTime g
      | Some p \<Rightarrow> (case ptime p of None \<Rightarrow> lastLowTideTime g
          | Some ts \<Rightarrow> if ptype p = ''L'' \<and> ts < t \<and> lastLowTideTime g < ts then ts
                        else lastLowTideTime g))"
  by (simp add: scan_one_def split: option.splits)

lemma scan_lastLow_mono: "lastLowTideTime g \<le> lastLowTideTime (scan_predictions t g ps)"
proof (induction ps arbitrary: g)
  case Nil
  show ?case by simp
next
  case (Cons e es)
  have "lastLowTideTime g \<le> lastLowTideTime (scan_one t g e)"
    by (simp add: scan_one_lastLow split: option.splits)
  also have "\<dots> \<le> lastLowTideTime (scan_predictions t (scan_one t g e) es)"
    by (rule Cons.IH)
  finally show ?case by simp
qed

lemma scan_lastLow_upper:
  "Some p \<in> set ps \<Longrightarrow> ptype p = ''L'' \<Longrightarrow> ptime p = Some ts \<Longrightarrow> ts < t \<Longrightarrow>
     ts \<le> lastLowTideTime (scan_predictions t g ps)"
proof (induction ps arbitrary: g)
  case Nil
  then show ?case by simp
next
  case (Cons e es)
  show ?case
  proof (cases "e = Some p")
    case True
    have "ts \<le> lastLowTideTime (scan_one t g e)"
      using True Cons.prems by (simp add: scan_one_lastLow)
    also have "\<dots> \<le> lastLowTideTime (scan_predictions t (scan_one t g e) es)"
      by (rule scan_lastLow_mono)
    finally show ?thesis by simp
  next
    case False
    then have "Some p \<in> set es" using Cons.prems by auto
    then show ?thesis using Cons.IH Cons.prems by simp
  qed
qed

lemma scan_lastLow_source:
  "lastLowTideTime (scan_predictions t g ps) = lastLowTideTime g \<or>
   (\<exists>p. Some p \<in> set ps \<and> ptype p = ''L'' \<and>
        ptime p = Some (lastLowTideTime (scan_predictions t g ps)) \<and>
        lastLowTideTime (scan_predictions t g ps) < t)"
proof (induction ps arbitrary: g)
  case Nil
  show ?case by simp
next
  case (Cons e es)
  let ?g = "scan_one t g e"
  let ?r = "lastLowTideTime (scan_predictions t ?g es)"
  from Cons.IH [of ?g] consider
    (same) "?r = lastLowTideTime ?g"
    | (later) "\<exists>p. Some p \<in> set es \<and> ptype p = ''L'' \<and> ptime p = Some ?r \<and> ?r < t"
    by blast
  then show ?case
  proof cases
    case same
    have "lastLowTideTime ?g = lastLowTideTime g \<or>
      (\<exists>p. e = Some p \<and> ptype p = ''L'' \<and> ptime p = Some (lastLowTideTime ?g) \<and>
           lastLowTideTime ?g < t)"
      by (simp add: scan_one_lastLow split: option.splits)
    then show ?thesis using same by auto
  next
    case later
    then show ?thesis by auto
  qed
qed

text \<open>
  Claim C9. If the last low anchor that the extraction leaves is present (not 0), it is the
  time of a record of kind \<open>L\<close> of the input, it is before the reference time \<open>t\<close>, and no
  record of kind \<open>L\<close> before \<open>t\<close> is later: it is the latest past low water, in whatever
  order the records come.
\<close>

theorem lastLow_is_latest_past_low:
  assumes "lastLowTideTime (extract_anchors t g ps) \<noteq> 0"
  shows "(\<exists>p. Some p \<in> set ps \<and> ptype p = ''L'' \<and>
              ptime p = Some (lastLowTideTime (extract_anchors t g ps))) \<and>
         lastLowTideTime (extract_anchors t g ps) < t \<and>
         (\<forall>p ts. Some p \<in> set ps \<and> ptype p = ''L'' \<and> ptime p = Some ts \<and> ts < t \<longrightarrow>
            ts \<le> lastLowTideTime (extract_anchors t g ps))"
proof -
  have z: "lastLowTideTime (reset_anchors g) = 0"
    by (simp add: reset_anchors_def)
  have src: "\<exists>p. Some p \<in> set ps \<and> ptype p = ''L'' \<and>
      ptime p = Some (lastLowTideTime (extract_anchors t g ps)) \<and>
      lastLowTideTime (extract_anchors t g ps) < t"
    using scan_lastLow_source [of t "reset_anchors g" ps] assms
    by (simp add: extract_anchors_def z)
  have up: "\<forall>p ts. Some p \<in> set ps \<and> ptype p = ''L'' \<and> ptime p = Some ts \<and> ts < t \<longrightarrow>
      ts \<le> lastLowTideTime (extract_anchors t g ps)"
    by (auto simp: extract_anchors_def intro: scan_lastLow_upper)
  show ?thesis using src up by blast
qed

theorem lastLow_witness:
  "lastLowTideTime (extract_anchors (day0 + 60000) empty_vars two_lows) = day0 + 53100 \<and>
   day0 + 53100 < day0 + 60000 \<and> (day0 + 8000 \<le> day0 + 53100)"
proof -
  have v: "lastLowTideTime (extract_anchors (day0 + 60000) empty_vars two_lows) = day0 + 53100"
    by (simp add: extract_anchors_def reset_anchors_def scan_one_def two_lows_def
        empty_vars_def day0_def)
  have nz: "lastLowTideTime (extract_anchors (day0 + 60000) empty_vars two_lows) \<noteq> 0"
    using v by (simp add: day0_def)
  let ?q = "\<lparr>ptype = ''L'', ptime = Some (day0 + 8000), pheight = 2.1\<rparr>"
  have m: "Some ?q \<in> set two_lows \<and> ptype ?q = ''L'' \<and> ptime ?q = Some (day0 + 8000) \<and>
      day0 + 8000 < day0 + 60000"
    by (simp add: two_lows_def)
  have "day0 + 8000 \<le> lastLowTideTime (extract_anchors (day0 + 60000) empty_vars two_lows)"
    using conjunct2 [OF conjunct2 [OF lastLow_is_latest_past_low [OF nz]]] m by blast
  then show ?thesis using v by (simp add: day0_def)
qed

section \<open>Extraction: the next anchors\<close>

lemma future_times_Nil: "future_times k t [] = []"
  by (simp add: future_times_def map_filter_simps)

lemma future_times_Cons:
  "future_times k t (e # es) =
     (case e of None \<Rightarrow> future_times k t es
      | Some p \<Rightarrow> (case ptime p of None \<Rightarrow> future_times k t es
          | Some ts \<Rightarrow> if ptype p = k \<and> t \<le> ts then ts # future_times k t es
                        else future_times k t es))"
  by (simp add: future_times_def map_filter_simps split: option.splits)

lemma in_future_times_iff:
  "ts \<in> set (future_times k t ps) \<longleftrightarrow>
     (\<exists>p. Some p \<in> set ps \<and> ptype p = k \<and> ptime p = Some ts \<and> t \<le> ts)"
  by (induction ps) (auto simp: future_times_Nil future_times_Cons split: option.splits)

lemma scan_one_nextHigh:
  "nextHighTideTime (scan_one t g e) =
     (if nextHighTideTime g \<noteq> 0 then nextHighTideTime g
      else case e of None \<Rightarrow> 0
        | Some p \<Rightarrow> (case ptime p of None \<Rightarrow> 0
            | Some ts \<Rightarrow> if ptype p = ''H'' \<and> t \<le> ts then ts else 0))"
  by (simp add: scan_one_def split: option.splits)

lemma scan_nextHigh:
  "nextHighTideTime (scan_predictions t g ps) =
     (if nextHighTideTime g \<noteq> 0 then nextHighTideTime g
      else case filter (\<lambda>x. x \<noteq> 0) (future_times ''H'' t ps) of [] \<Rightarrow> 0 | x # _ \<Rightarrow> x)"
proof (induction ps arbitrary: g)
  case Nil
  show ?case by (simp add: future_times_Nil)
next
  case (Cons e es)
  show ?case
    by (simp add: Cons.IH scan_one_nextHigh future_times_Cons split: option.splits)
qed

lemma future_times_nonzero:
  assumes "0 < t"
  shows "filter (\<lambda>x. x \<noteq> 0) (future_times k t ps) = future_times k t ps"
proof -
  have "\<forall>x \<in> set (future_times k t ps). x \<noteq> 0"
    using assms by (auto simp: in_future_times_iff)
  then show ?thesis by (simp add: filter_id_conv)
qed

text \<open>
  Claim C2, as amended. The sketch keeps the first record of kind \<open>H\<close> at or after the
  reference time that it meets in the order of the input, not the earliest one. For a
  reference time \<open>t > 0\<close>: if the next high anchor is present, it is the time of a record
  of kind \<open>H\<close>, it is at or after \<open>t\<close>, it is the first such time in input order, and it is
  the least one whenever those times come in ascending order.
\<close>

theorem nextHigh_is_first_future_high:
  assumes "0 < t" and "nextHighTideTime (extract_anchors t g ps) \<noteq> 0"
  shows "(\<exists>p. Some p \<in> set ps \<and> ptype p = ''H'' \<and>
              ptime p = Some (nextHighTideTime (extract_anchors t g ps))) \<and>
         t \<le> nextHighTideTime (extract_anchors t g ps) \<and>
         (\<exists>rest. future_times ''H'' t ps = nextHighTideTime (extract_anchors t g ps) # rest) \<and>
         (sorted (future_times ''H'' t ps) \<longrightarrow>
            (\<forall>p ts. Some p \<in> set ps \<and> ptype p = ''H'' \<and> ptime p = Some ts \<and> t \<le> ts \<longrightarrow>
               nextHighTideTime (extract_anchors t g ps) \<le> ts))"
proof -
  let ?nh = "nextHighTideTime (extract_anchors t g ps)"
  have eq: "?nh = (case future_times ''H'' t ps of [] \<Rightarrow> 0 | x # _ \<Rightarrow> x)"
    using assms(1)
    by (simp add: extract_anchors_def scan_nextHigh reset_anchors_def future_times_nonzero)
  then obtain rest where hd: "future_times ''H'' t ps = ?nh # rest"
    using assms(2) by (cases "future_times ''H'' t ps") simp_all
  then have mem: "?nh \<in> set (future_times ''H'' t ps)" by simp
  have src: "(\<exists>p. Some p \<in> set ps \<and> ptype p = ''H'' \<and> ptime p = Some ?nh) \<and> t \<le> ?nh"
    using mem by (auto simp: in_future_times_iff)
  have least: "sorted (future_times ''H'' t ps) \<longrightarrow>
      (\<forall>p ts. Some p \<in> set ps \<and> ptype p = ''H'' \<and> ptime p = Some ts \<and> t \<le> ts \<longrightarrow> ?nh \<le> ts)"
  proof (intro impI allI)
    fix p ts
    assume so: "sorted (future_times ''H'' t ps)"
      and r: "Some p \<in> set ps \<and> ptype p = ''H'' \<and> ptime p = Some ts \<and> t \<le> ts"
    from r have "ts \<in> set (future_times ''H'' t ps)"
      by (auto simp: in_future_times_iff)
    then have "ts = ?nh \<or> ts \<in> set rest" using hd by simp
    moreover have "\<forall>y \<in> set rest. ?nh \<le> y" using so hd by simp
    ultimately show "?nh \<le> ts" by auto
  qed
  show ?thesis using src hd least by blast
qed

text \<open>The sample day at 11:00: the next high water is the one at 20:30.\<close>

theorem nextHigh_first_future_high_witness:
  "nextHighTideTime (extract_anchors (day0 + 39600) empty_vars feed) = day0 + 73800 \<and>
   future_times ''H'' (day0 + 39600) feed = [day0 + 73800] \<and>
   day0 + 39600 \<le> day0 + 73800"
proof -
  have v: "nextHighTideTime (extract_anchors (day0 + 39600) empty_vars feed) = day0 + 73800"
    by (simp add: extract_anchors_def reset_anchors_def scan_one_def feed_def
        empty_vars_def day0_def)
  have pos: "0 < day0 + 39600" by (simp add: day0_def)
  have nz: "nextHighTideTime (extract_anchors (day0 + 39600) empty_vars feed) \<noteq> 0"
    using v by (simp add: day0_def)
  have f: "future_times ''H'' (day0 + 39600) feed = [day0 + 73800]"
    by (simp add: future_times_Cons future_times_Nil feed_def day0_def)
  show ?thesis
    using nextHigh_is_first_future_high [OF pos nz] v f by (simp add: day0_def)
qed

text \<open>
  The sample day with its records in another order, at 05:33: the sketch keeps the high
  water of 20:30 although the input holds the one of 08:10.
\<close>

theorem nextHigh_not_earliest_counterexample:
  "nextHighTideTime (extract_anchors (day0 + 20000) empty_vars unordered_feed) = day0 + 73800 \<and>
   Some \<lparr>ptype = ''H'', ptime = Some (day0 + 29400), pheight = 11.2\<rparr> \<in> set unordered_feed \<and>
   day0 + 20000 \<le> day0 + 29400 \<and> day0 + 29400 < day0 + 73800"
  by (simp add: extract_anchors_def reset_anchors_def scan_one_def unordered_feed_def
      empty_vars_def day0_def)

section \<open>Refresh and the anchors it writes\<close>






lemma not_failed_cases:
  assumes "\<not> fetch_or_decode_failed r s"
  obtains ps where "body r = Json (Some ps)" "ps \<noteq> []" "httpCode r = HTTP_CODE_OK"
    "noaa_station_id (ram s) \<noteq> []"
proof (cases "body r")
  case BadJson
  then show ?thesis using assms by (simp add: fetch_or_decode_failed_def)
next
  case (Json x)
  then show ?thesis using assms that
    by (cases x) (auto simp: fetch_or_decode_failed_def)
qed

lemma getNOAATideData_failed:
  "fetch_or_decode_failed r s \<Longrightarrow> getNOAATideData t r s = (False, s)"
  by (auto simp: getNOAATideData_def fetch_or_decode_failed_def split: json_payload.splits option.splits)

lemma getNOAATideData_written:
  assumes "\<not> fetch_or_decode_failed r s" "body r = Json (Some ps)"
  shows "getNOAATideData t r s =
     (nextHighTideTime (extract_anchors t (ram s) ps) > 0 \<or>
      nextLowTideTime (extract_anchors t (ram s) ps) > 0,
      \<lparr>ram = extract_anchors t (ram s) ps,
       nvs = save_anchors (extract_anchors t (ram s) ps) (nvs s)\<rparr>)"
  using assms by (simp add: getNOAATideData_def fetch_or_decode_failed_def Let_def)

lemma refresh_failed: "fetch_or_decode_failed r s \<Longrightarrow> refresh d t r s = s"
  by (simp add: refresh_def getNOAATideData_failed)

lemma refresh_written:
  assumes "\<not> fetch_or_decode_failed r s" "body r = Json (Some ps)"
  shows "nvs (refresh d t r s) =
     (save_anchors (extract_anchors t (ram s) ps) (nvs s))
       \<lparr>last_dl_day :=
          (if nextHighTideTime (extract_anchors t (ram s) ps) > 0 \<or>
              nextLowTideTime (extract_anchors t (ram s) ps) > 0
           then d else last_dl_day (nvs s))\<rparr>"
  using assms
  by (simp add: refresh_def getNOAATideData_written saveLastDownloadDay_def save_anchors_def)


lemmas store_defs = falling_store_def falling_system_def ok_reply_def error_reply_def
  late_inputs_def no_time_inputs_def calm_inputs_def failing_inputs_def
  feed_def far_feed_def far_reply_def blank_system_def new_station_inputs_def
  offline_inputs_def


section \<open>The duration of a bracket\<close>




section \<open>When the servo is left alone\<close>

text \<open>
  Claim C4, as amended. In \<^verbatim>\<open>newFinalThree.ino\<close>, with anchors that are 0 or positive,
  \<^verbatim>\<open>updateServoPosition\<close> returns without a write exactly when both last anchors are absent
  or both next anchors are absent. In every other case it writes an angle, whatever the
  clock reads: 90 when the last and the next anchor it selects are of one kind, an angle
  from 0 to 90 from a high to a low water, and an angle from 90 to 180 from a low to a
  high water.
\<close>

theorem servo_untouched_iff_a_side_absent:
  assumes "0 \<le> lastHighTideTime g" and "0 \<le> lastLowTideTime g"
    and "0 \<le> nextHighTideTime g" and "0 \<le> nextLowTideTime g"
  shows "(updateServoPosition now g = Untouched \<longleftrightarrow>
            (lastHighTideTime g = 0 \<and> lastLowTideTime g = 0) \<or>
            (nextHighTideTime g = 0 \<and> nextLowTideTime g = 0)) \<and>
         (\<not> ((lastHighTideTime g = 0 \<and> lastLowTideTime g = 0) \<or>
             (nextHighTideTime g = 0 \<and> nextLowTideTime g = 0)) \<longrightarrow>
            (\<exists>a. updateServoPosition now g = Written a \<and>
               (snd (prevTide g) = snd (nextTide g) \<longrightarrow> a = 90) \<and>
               (snd (prevTide g) = ''H'' \<and> snd (nextTide g) = ''L'' \<longrightarrow> 0 \<le> a \<and> a \<le> 90) \<and>
               (snd (prevTide g) = ''L'' \<and> snd (nextTide g) = ''H'' \<longrightarrow> 90 \<le> a \<and> a \<le> 180)))"
proof -
  have p: "fst (prevTide g) = 0 \<longleftrightarrow> lastHighTideTime g = 0 \<and> lastLowTideTime g = 0"
    using assms by (auto simp: prevTide_def)
  have n: "fst (nextTide g) = 0 \<longleftrightarrow> nextHighTideTime g = 0 \<and> nextLowTideTime g = 0"
    using assms by (auto simp: nextTide_def)
  have u: "updateServoPosition now g = Untouched \<longleftrightarrow>
      (lastHighTideTime g = 0 \<and> lastLowTideTime g = 0) \<or>
      (nextHighTideTime g = 0 \<and> nextLowTideTime g = 0)"
    by (simp add: untouched_iff_unselected p n)
  have w: "\<exists>a. updateServoPosition now g = Written a \<and>
      (snd (prevTide g) = snd (nextTide g) \<longrightarrow> a = 90) \<and>
      (snd (prevTide g) = ''H'' \<and> snd (nextTide g) = ''L'' \<longrightarrow> 0 \<le> a \<and> a \<le> 90) \<and>
      (snd (prevTide g) = ''L'' \<and> snd (nextTide g) = ''H'' \<longrightarrow> 90 \<le> a \<and> a \<le> 180)"
    if "\<not> ((lastHighTideTime g = 0 \<and> lastLowTideTime g = 0) \<or>
             (nextHighTideTime g = 0 \<and> nextLowTideTime g = 0))"
  proof -
    have nz: "fst (prevTide g) \<noteq> 0" "fst (nextTide g) \<noteq> 0"
      using that p n by simp_all
    show ?thesis
      using written_when_selected
        [of g "fst (prevTide g)" "snd (prevTide g)" "fst (nextTide g)" "snd (nextTide g)" now] nz
      by auto
  qed
  show ?thesis using u w by blast
qed

text \<open>
  No anchor at all; two high waters and no low water; the sample day after its low water.
\<close>

theorem servo_untouched_witness:
  "updateServoPosition (day0 + 39600) empty_vars = Untouched \<and>
   updateServoPosition (day0 + 39600) same_kind_vars = Written 90 \<and>
   (\<exists>a. updateServoPosition (day0 + 60000) falling_vars = Written a \<and> 0 \<le> a \<and> a \<le> 90)"
proof -
  have k: "prevTide same_kind_vars = (day0 + 29400, ''H'')"
    "nextTide same_kind_vars = (day0 + 73800, ''H'')"
    "prevTide falling_vars = (day0 + 29400, ''H'')"
    "nextTide falling_vars = (day0 + 53100, ''L'')"
    by (simp_all add: prevTide_def nextTide_def sample_defs)
  have a: "updateServoPosition (day0 + 39600) empty_vars = Untouched"
    using servo_untouched_iff_a_side_absent [of empty_vars "day0 + 39600"]
    by (simp add: empty_vars_def)
  have b: "updateServoPosition (day0 + 39600) same_kind_vars = Written 90"
    using servo_untouched_iff_a_side_absent [of same_kind_vars "day0 + 39600"] k
    by (auto simp: sample_defs)
  have c: "\<exists>a. updateServoPosition (day0 + 60000) falling_vars = Written a \<and> 0 \<le> a \<and> a \<le> 90"
    using servo_untouched_iff_a_side_absent [of falling_vars "day0 + 60000"] k
    by (auto simp: sample_defs)
  show ?thesis using a b c by simp
qed

text \<open>
  Two high waters and no low water: the default angle 90 is written. A clock past the
  next low water: 90 is written as well.
\<close>

theorem default_angle_without_bracket_counterexample:
  "prevTide same_kind_vars = (day0 + 29400, ''H'') \<and>
   nextTide same_kind_vars = (day0 + 73800, ''H'') \<and>
   updateServoPosition (day0 + 39600) same_kind_vars = Written 90 \<and>
   prevTide falling_vars = (day0 + 29400, ''H'') \<and>
   nextTide falling_vars = (day0 + 53100, ''L'') \<and>
   day0 + 53100 < day0 + 60000 \<and>
   updateServoPosition (day0 + 60000) falling_vars = Written 90"
  by (simp add: servo_eval sample_defs)

section \<open>What a refresh leaves in the store\<close>




section \<open>The decision to refresh\<close>

lemma nextFutureTideTime_earliest:
  "0 \<le> nextLowTideTime g \<Longrightarrow>
     nextFutureTideTime g = (case earliest_next g of None \<Rightarrow> 0 | Some e \<Rightarrow> e)"
  by (auto simp: nextFutureTideTime_def earliest_next_def)

lemma earliest_next_positive: "earliest_next g = Some e \<Longrightarrow> 0 < e"
  by (auto simp: earliest_next_def split: if_splits)

lemma needsNewData_iff:
  assumes "0 \<le> nextLowTideTime g"
  shows "needsNewData d now g \<longleftrightarrow>
     noaa_station_id g = [] \<or> d \<noteq> lastDownloadDay g \<or>
     (case earliest_next g of None \<Rightarrow> True | Some e \<Rightarrow> e < now)"
proof (cases "earliest_next g")
  case None
  then show ?thesis using assms by (simp add: needsNewData_def nextFutureTideTime_earliest)
next
  case (Some e)
  then show ?thesis
    using earliest_next_positive [OF Some] assms
    by (auto simp: needsNewData_def nextFutureTideTime_earliest)
qed

lemma setup_body_fields:
  "refresh_attempted (setup_body inp p) =
     (time_acquired inp p \<and> needsNewData (tm_mday inp) (epoch_setup inp) (ram (connected_state inp p)))"
  "store_after (setup_body inp p) =
     nvs (if time_acquired inp p \<and>
             needsNewData (tm_mday inp) (epoch_setup inp) (ram (connected_state inp p))
          then refresh (tm_mday inp) (epoch_fetch inp) (http inp) (connected_state inp p)
          else connected_state inp p)"
  "servo (setup_body inp p) =
     updateServoPosition (epoch_servo inp)
       (ram (if time_acquired inp p \<and>
                needsNewData (tm_mday inp) (epoch_setup inp) (ram (connected_state inp p))
             then refresh (tm_mday inp) (epoch_fetch inp) (http inp) (connected_state inp p)
             else connected_state inp p))"
  "sleep_seconds (setup_body inp p) = deepSleep (epoch_sleep inp)"
  by (auto simp: setup_body_def connected_state_def time_acquired_def Let_def split: prod.splits)

text \<open>
  Claim C6, as amended. With a next low anchor that is 0 or positive, \<^verbatim>\<open>needsNewData\<close>
  is set if and only if the station is empty, or the day of the last download differs
  from the current day, or both next anchors are absent, or the earliest next anchor that
  is present is strictly before the current time. A next anchor at exactly the current
  time does not set it. When it is not set, the cycle attempts no refresh and the store
  is what \<^verbatim>\<open>connectToWiFi\<close> left.
\<close>

theorem refresh_policy_of_the_sketch:
  assumes "0 \<le> nextLowTideTime g"
  shows "(needsNewData d now g \<longleftrightarrow>
      noaa_station_id g = [] \<or> d \<noteq> lastDownloadDay g \<or>
      (case earliest_next g of None \<Rightarrow> True | Some e \<Rightarrow> e < now)) \<and>
   (\<not> needsNewData (tm_mday inp) (epoch_setup inp) (ram (connected_state inp p)) \<longrightarrow>
      \<not> refresh_attempted (setup_body inp p) \<and>
      store_after (setup_body inp p) = nvs (connected_state inp p))"
  using needsNewData_iff [OF assms, of d now] by (simp add: setup_body_fields)

lemma connected_calm: "connected_state calm_inputs falling_store = falling_system"
  by (simp add: connected_state_def connectToWiFi_def store_defs loadConfiguration_def)

text \<open>
  The sample day: after the low water, on the next day, with no anchors, and at 11:00 of
  the day of the download.
\<close>

theorem refresh_policy_witness:
  "needsNewData 15 (day0 + 53101) falling_vars \<and>
   needsNewData 16 (day0 + 39600) falling_vars \<and>
   needsNewData 15 (day0 + 39600) empty_vars \<and>
   \<not> needsNewData 15 (day0 + 39600) falling_vars \<and>
   \<not> refresh_attempted (setup_body calm_inputs falling_store) \<and>
   store_after (setup_body calm_inputs falling_store) = falling_store"
proof -
  have e: "earliest_next falling_vars = Some (day0 + 53100)" "earliest_next empty_vars = None"
    by (simp_all add: earliest_next_def sample_defs)
  have f: "noaa_station_id falling_vars \<noteq> []" "lastDownloadDay falling_vars = 15"
    "0 \<le> nextLowTideTime falling_vars" "0 \<le> nextLowTideTime empty_vars"
    by (simp_all add: sample_defs)
  have r: "ram falling_system = falling_vars" "nvs falling_system = falling_store"
    by (simp_all add: falling_system_def loadConfiguration_def falling_store_def sample_defs)
  have i: "tm_mday calm_inputs = 15" "epoch_setup calm_inputs = day0 + 39600"
    by (simp_all add: calm_inputs_def)
  have a: "needsNewData 15 (day0 + 53101) falling_vars"
    using refresh_policy_of_the_sketch [OF f(3), of 15 "day0 + 53101"] e f by (simp add: day0_def)
  have b: "needsNewData 16 (day0 + 39600) falling_vars"
    using refresh_policy_of_the_sketch [OF f(3), of 16 "day0 + 39600"] e f by simp
  have c: "needsNewData 15 (day0 + 39600) empty_vars"
    using refresh_policy_of_the_sketch [OF f(4), of 15 "day0 + 39600"] e by simp
  have d: "\<not> needsNewData 15 (day0 + 39600) falling_vars"
    using refresh_policy_of_the_sketch [OF f(3), of 15 "day0 + 39600"] e f by (simp add: day0_def)
  have g: "\<not> refresh_attempted (setup_body calm_inputs falling_store) \<and>
      store_after (setup_body calm_inputs falling_store) = falling_store"
    using refresh_policy_of_the_sketch [OF f(3), of 15 "day0 + 39600" calm_inputs falling_store] d
    by (simp add: connected_calm r i)
  show ?thesis using a b c d g by simp
qed

text \<open>The sample day at 14:45, the second of the next low water itself.\<close>

theorem refresh_policy_boundary_counterexample:
  "noaa_station_id falling_vars \<noteq> [] \<and> lastDownloadDay falling_vars = 15 \<and>
   earliest_next falling_vars = Some (day0 + 53100) \<and> day0 + 53100 \<le> day0 + 53100 \<and>
   \<not> needsNewData 15 (day0 + 53100) falling_vars"
  by (simp add: needsNewData_def nextFutureTideTime_def earliest_next_def sample_defs)

section \<open>The day of the last download\<close>

text \<open>
  What the next wake loads is what this wake holds, but for the station: a station of
  ten characters or more is saved as it is and read back as the empty string.
\<close>

lemma connected_reload:
  "\<exists>x. loadConfiguration (nvs (connected_state inp p)) =
          (ram (connected_state inp p))\<lparr>noaa_station_id := x\<rparr> \<and>
        (x = noaa_station_id (ram (connected_state inp p)) \<or> x = [])"
  by (cases "wifi inp")
    (auto simp: connected_state_def connectToWiFi_def loadConfiguration_def
      saveNoaaStationId_def)

lemma connected_anchors:
  "\<exists>x. ram (connected_state inp p) = (loadConfiguration p)\<lparr>noaa_station_id := x\<rparr>"
proof (cases "wifi inp")
  case WifiFailed
  then have "ram (connected_state inp p) =
      (loadConfiguration p)\<lparr>noaa_station_id := noaa_station_id (loadConfiguration p)\<rparr>"
    by (simp add: connected_state_def connectToWiFi_def)
  then show ?thesis by blast
next
  case (WifiConnected v)
  then have "ram (connected_state inp p) = (loadConfiguration p)\<lparr>noaa_station_id := v\<rparr> \<or>
      ram (connected_state inp p) =
        (loadConfiguration p)\<lparr>noaa_station_id := noaa_station_id (loadConfiguration p)\<rparr>"
    by (simp add: connected_state_def connectToWiFi_def)
  then show ?thesis by blast
qed

lemma connected_store:
  "nvs (connected_state inp p) = p\<lparr>noaa_id := noaa_id (nvs (connected_state inp p))\<rparr>"
  by (cases "wifi inp")
    (simp_all add: connected_state_def connectToWiFi_def saveNoaaStationId_def)

lemma offline_store: "wifi inp = WifiFailed \<Longrightarrow> nvs (connected_state inp p) = p"
  by (simp add: connected_state_def connectToWiFi_def)

lemma connected_day: "last_dl_day (nvs (connected_state inp p)) = last_dl_day p"
  by (cases "wifi inp")
    (simp_all add: connected_state_def connectToWiFi_def saveNoaaStationId_def)

lemma needsNewData_later:
  "needsNewData d now g \<Longrightarrow> now \<le> now' \<Longrightarrow> needsNewData d now' g"
  by (auto simp: needsNewData_def split: if_splits)

lemma needsNewData_station:
  "needsNewData d now g \<Longrightarrow> x = noaa_station_id g \<or> x = [] \<Longrightarrow>
     needsNewData d now (g\<lparr>noaa_station_id := x\<rparr>)"
  by (auto simp: needsNewData_def nextFutureTideTime_def split: if_splits)

lemma refresh_day_kept:
  assumes "\<not> fst (getNOAATideData t r s)"
  shows "last_dl_day (nvs (refresh d t r s)) = last_dl_day (nvs s)"
proof (cases "fetch_or_decode_failed r s")
  case True
  then show ?thesis by (simp add: refresh_failed)
next
  case False
  then obtain ps where ps: "body r = Json (Some ps)" by (auto elim: not_failed_cases)
  have "\<not> (nextHighTideTime (extract_anchors t (ram s) ps) > 0 \<or>
      nextLowTideTime (extract_anchors t (ram s) ps) > 0)"
    using assms False ps by (simp add: getNOAATideData_written)
  then show ?thesis
    using False ps by (simp add: refresh_written save_anchors_def)
qed

lemma refresh_day_changed:
  "last_dl_day (nvs (refresh d t r s)) \<noteq> last_dl_day (nvs s) \<Longrightarrow> fst (getNOAATideData t r s)"
  using refresh_day_kept by blast

lemma failed_refresh_needs_again:
  assumes c: "loadConfiguration (nvs s) = (ram s)\<lparr>noaa_station_id := x\<rparr>"
      "x = noaa_station_id (ram s) \<or> x = []"
    and f: "\<not> fst (getNOAATideData t r s)"
    and n: "needsNewData d now (ram s)" "now \<le> now'"
  shows "needsNewData d now' (loadConfiguration (nvs (refresh d t r s)))"
proof (cases "fetch_or_decode_failed r s")
  case True
  have "needsNewData d now' (ram s)"
    using n by (rule needsNewData_later)
  then have "needsNewData d now' ((ram s)\<lparr>noaa_station_id := x\<rparr>)"
    using c(2) by (rule needsNewData_station)
  then show ?thesis using True c(1) by (simp add: refresh_failed)
next
  case False
  then obtain ps where ps: "body r = Json (Some ps)" by (auto elim: not_failed_cases)
  let ?g = "extract_anchors t (ram s) ps"
  have "\<not> (nextHighTideTime ?g > 0 \<or> nextLowTideTime ?g > 0)"
    using f False ps by (simp add: getNOAATideData_written)
  then have "nextFutureTideTime (loadConfiguration (nvs (refresh d t r s))) = 0"
    using False ps
    by (simp add: refresh_written nextFutureTideTime_def loadConfiguration_def save_anchors_def)
  then show ?thesis by (simp add: needsNewData_def)
qed

lemma other_day_needs: "d \<noteq> lastDownloadDay g \<Longrightarrow> needsNewData d now g"
  by (simp add: needsNewData_def)

text \<open>
  Claim C7. The day of the last download in the store changes in a wake cycle only if a
  refresh was attempted and \<^verbatim>\<open>getNOAATideData\<close> returned true. After an attempt that
  returned false the day is the one the cycle loaded, and on the store the cycle leaves
  \<^verbatim>\<open>needsNewData\<close> is set again at every time from this wake on, on the same calendar day
  and on every day other than the stored one.
\<close>

theorem day_marker_written_only_on_success:
  "(last_dl_day (store_after (setup_body inp p)) \<noteq> last_dl_day p \<longrightarrow>
      refresh_attempted (setup_body inp p) \<and>
      fst (getNOAATideData (epoch_fetch inp) (http inp) (connected_state inp p))) \<and>
   (refresh_attempted (setup_body inp p) \<and>
    \<not> fst (getNOAATideData (epoch_fetch inp) (http inp) (connected_state inp p)) \<longrightarrow>
      last_dl_day (store_after (setup_body inp p)) = last_dl_day p \<and>
      (\<forall>d' now'. epoch_setup inp \<le> now' \<and> (d' = tm_mday inp \<or> d' \<noteq> last_dl_day p) \<longrightarrow>
         needsNewData d' now' (loadConfiguration (store_after (setup_body inp p)))))"
proof (intro conjI impI allI)
  assume ch: "last_dl_day (store_after (setup_body inp p)) \<noteq> last_dl_day p"
  then show att: "refresh_attempted (setup_body inp p)"
    by (auto simp: setup_body_fields connected_day split: if_splits)
  then show "fst (getNOAATideData (epoch_fetch inp) (http inp) (connected_state inp p))"
    using ch refresh_day_changed [of "tm_mday inp" "epoch_fetch inp" "http inp" "connected_state inp p"]
    by (auto simp: setup_body_fields connected_day)
next
  assume a: "refresh_attempted (setup_body inp p) \<and>
    \<not> fst (getNOAATideData (epoch_fetch inp) (http inp) (connected_state inp p))"
  then have st: "store_after (setup_body inp p) =
      nvs (refresh (tm_mday inp) (epoch_fetch inp) (http inp) (connected_state inp p))"
    and need: "needsNewData (tm_mday inp) (epoch_setup inp) (ram (connected_state inp p))"
    by (auto simp: setup_body_fields)
  show kept: "last_dl_day (store_after (setup_body inp p)) = last_dl_day p"
    using a by (simp add: st refresh_day_kept connected_day)
  fix d' now'
  assume b: "epoch_setup inp \<le> now' \<and> (d' = tm_mday inp \<or> d' \<noteq> last_dl_day p)"
  show "needsNewData d' now' (loadConfiguration (store_after (setup_body inp p)))"
  proof (cases "d' = tm_mday inp")
    case True
    obtain x where x: "loadConfiguration (nvs (connected_state inp p)) =
          (ram (connected_state inp p))\<lparr>noaa_station_id := x\<rparr>"
        "x = noaa_station_id (ram (connected_state inp p)) \<or> x = []"
      using connected_reload [of inp p] by blast
    have le: "epoch_setup inp \<le> now'" using b by simp
    have nf: "\<not> fst (getNOAATideData (epoch_fetch inp) (http inp) (connected_state inp p))"
      using a by simp
    have "needsNewData (tm_mday inp) now'
        (loadConfiguration (nvs (refresh (tm_mday inp) (epoch_fetch inp) (http inp)
           (connected_state inp p))))"
      by (rule failed_refresh_needs_again [OF x nf need le])
    then show ?thesis using True by (simp add: st)
  next
    case False
    then have "d' \<noteq> lastDownloadDay (loadConfiguration (store_after (setup_body inp p)))"
      using b kept by (simp add: loadConfiguration_def)
    then show ?thesis by (rule other_day_needs)
  qed
qed

lemmas cycle_eval = setup_body_fields time_acquired_def connected_state_def connectToWiFi_def
  needsNewData_def nextFutureTideTime_def deepSleep_def TIME_TO_SLEEP_def

text \<open>
  A wake on the next day with a transport error, the wake half an hour later and a wake
  on the day after.
\<close>

theorem day_marker_witness:
  "refresh_attempted (setup_body failing_inputs falling_store) \<and>
   fst (getNOAATideData (epoch_fetch failing_inputs) (http failing_inputs)
     (connected_state failing_inputs falling_store)) = False \<and>
   last_dl_day (store_after (setup_body failing_inputs falling_store)) = 15 \<and>
   tm_mday failing_inputs = 16 \<and>
   needsNewData 16 (day0 + 91800)
     (loadConfiguration (store_after (setup_body failing_inputs falling_store))) \<and>
   needsNewData 17 (day0 + 176400)
     (loadConfiguration (store_after (setup_body failing_inputs falling_store)))"
proof -
  have a: "refresh_attempted (setup_body failing_inputs falling_store)"
    by (simp add: cycle_eval store_defs loadConfiguration_def day0_def)
  have f: "\<not> fst (getNOAATideData (epoch_fetch failing_inputs) (http failing_inputs)
      (connected_state failing_inputs falling_store))"
    by (simp add: connected_state_def connectToWiFi_def getNOAATideData_def store_defs
        loadConfiguration_def HTTP_CODE_OK_def)
  have i: "tm_mday failing_inputs = 16" "epoch_setup failing_inputs = day0 + 90000"
    "last_dl_day falling_store = 15"
    by (simp_all add: store_defs)
  have l: "day0 + 90000 \<le> day0 + 91800" "day0 + 90000 \<le> day0 + 176400" by simp_all
  show ?thesis
    using day_marker_written_only_on_success [of failing_inputs falling_store] a f i l by simp
qed

section \<open>A wake without the time\<close>

text \<open>
  Claim C8, as amended. When the connection or the time update fails, the cycle attempts
  no refresh and writes no anchor and no day of download: the store is the one it loaded
  but for a station newly entered in the portal, and with no connection it is the one it
  loaded. The cycle still runs \<^verbatim>\<open>updateServoPosition\<close> on the anchors it loaded, with
  whatever the clock reads, so the servo may be moved.
\<close>

theorem no_time_cycle:
  assumes "\<not> time_acquired inp p"
  shows "\<not> refresh_attempted (setup_body inp p) \<and>
         store_after (setup_body inp p) = p\<lparr>noaa_id := noaa_id (store_after (setup_body inp p))\<rparr> \<and>
         (wifi inp = WifiFailed \<longrightarrow> store_after (setup_body inp p) = p) \<and>
         servo (setup_body inp p) = updateServoPosition (epoch_servo inp) (loadConfiguration p)"
proof -
  obtain x where x: "ram (connected_state inp p) = (loadConfiguration p)\<lparr>noaa_station_id := x\<rparr>"
    using connected_anchors [of inp p] by blast
  have a: "\<not> refresh_attempted (setup_body inp p)"
    and s: "store_after (setup_body inp p) = nvs (connected_state inp p)"
    and v: "servo (setup_body inp p) =
      updateServoPosition (epoch_servo inp) (ram (connected_state inp p))"
    using assms by (simp_all add: setup_body_fields)
  have "servo (setup_body inp p) = updateServoPosition (epoch_servo inp) (loadConfiguration p)"
    by (simp only: v x updateServoPosition_station)
  moreover have "store_after (setup_body inp p) =
      p\<lparr>noaa_id := noaa_id (store_after (setup_body inp p))\<rparr>"
    using connected_store [of inp p] by (simp only: s)
  moreover have "wifi inp = WifiFailed \<longrightarrow> store_after (setup_body inp p) = p"
    by (simp add: s offline_store)
  ultimately show ?thesis using a by blast
qed

text \<open>
  The time server not answering at 11:00 of the sample day while the portal hands over a
  new station, and a wake with no connection.
\<close>

theorem no_time_witness:
  "\<not> time_acquired new_station_inputs falling_store \<and>
   \<not> refresh_attempted (setup_body new_station_inputs falling_store) \<and>
   store_after (setup_body new_station_inputs falling_store) =
     falling_store\<lparr>noaa_id := ''9410230''\<rparr> \<and>
   store_after (setup_body offline_inputs falling_store) = falling_store \<and>
   servo (setup_body offline_inputs falling_store) = Written 38"
proof -
  have a: "\<not> time_acquired new_station_inputs falling_store"
    "\<not> time_acquired offline_inputs falling_store"
    by (simp_all add: time_acquired_def connectToWiFi_def store_defs)
  have i: "noaa_id (store_after (setup_body new_station_inputs falling_store)) = ''9410230''"
    by (simp add: cycle_eval saveNoaaStationId_def store_defs loadConfiguration_def)
  have w: "wifi offline_inputs = WifiFailed" "epoch_servo offline_inputs = day0 + 39600"
    by (simp_all add: store_defs)
  have u: "updateServoPosition (day0 + 39600) (loadConfiguration falling_store) = Written 38"
    by (simp add: servo_eval loadConfiguration_def falling_store_def day0_def)
  show ?thesis
    using no_time_cycle [OF a(1)] no_time_cycle [OF a(2)] a i w u by simp
qed

text \<open>
  The time server not answering at 11:00 of the sample day: the servo is moved to 38.
\<close>

theorem no_time_still_moves_counterexample:
  "\<not> time_acquired no_time_inputs falling_store \<and>
   servo (setup_body no_time_inputs falling_store) = Written 38"
  by (simp add: cycle_eval store_defs loadConfiguration_def servo_eval day0_def)

end
